theory Spec2Isabelle
  imports Complex_Main
begin

section \<open>Python values\<close>

text \<open>
  The program of \<^verbatim>\<open>process_batch.py\<close> passes its results around as Python dicts built
  by dict literals, and prints one of them as JSON. A dict is modelled as an association
  list in the order of the literal; a key is looked up with \<open>map_of\<close>. Python floats
  (\<^verbatim>\<open>time.time()\<close> and what is computed from it) are modelled as reals: the program
  only subtracts, compares and divides them.

  A Python \<^verbatim>\<open>str\<close> that is a path, a label or a message is a \<open>string\<close>; the decoded
  text of a file is a list of code points (\<open>pytext\<close>), since one character of it can take
  several bytes of the file.
\<close>

type_synonym pytext = "nat list"

datatype pyval =
    PBool bool
  | PInt int
  | PFloat real
  | PStr string
  | PList "pyval list"
  | PDict "(string \<times> pyval) list"

type_synonym pydict = "(string \<times> pyval) list"

text \<open>Python's truth value of an object, as \<^verbatim>\<open>if x:\<close> and \<^verbatim>\<open>not x\<close> test it.\<close>

fun truthy :: "pyval \<Rightarrow> bool" where
  "truthy (PBool b) = b"
| "truthy (PInt i) = (i \<noteq> 0)"
| "truthy (PFloat x) = (x \<noteq> 0)"
| "truthy (PStr s) = (s \<noteq> [])"
| "truthy (PList xs) = (xs \<noteq> [])"
| "truthy (PDict d) = (d \<noteq> [])"

text \<open>
  \<^verbatim>\<open>result["success"]\<close> as a truth value. Every dict the program subscripts this way is
  built by a literal that holds the key (lemmas \<open>vectorize_content_has_success\<close>,
  \<open>process_file_has_success\<close>, \<open>process_batch_has_success\<close>), so the \<^verbatim>\<open>KeyError\<close>
  of a missing key cannot arise; the second case is never reached.
\<close>

definition success_of :: "pydict \<Rightarrow> bool" where
  "success_of d = (case map_of d ''success'' of Some v \<Rightarrow> truthy v | None \<Rightarrow> False)"

text \<open>\<^verbatim>\<open>d.get(key, default)\<close>.\<close>

definition dict_get :: "(string \<times> 'v) list \<Rightarrow> string \<Rightarrow> 'v \<Rightarrow> 'v" where
  "dict_get d k dflt = (case map_of d k of Some v \<Rightarrow> v | None \<Rightarrow> dflt)"

text \<open>The number a JSON reader sees in an int or float value.\<close>

fun py_number :: "pyval \<Rightarrow> real option" where
  "py_number (PInt i) = Some (real_of_int i)"
| "py_number (PFloat x) = Some x"
| "py_number _ = None"

text \<open>\<^verbatim>\<open>str(n)\<close> of a natural number, as the f-strings of the program format their counts.\<close>

definition digit_char :: "nat \<Rightarrow> char" where
  "digit_char d = ''0123456789'' ! d"

function str_nat :: "nat \<Rightarrow> string" where
  "str_nat n = (if n < 10 then [digit_char n] else str_nat (n div 10) @ [digit_char (n mod 10)])"
  by pat_completeness auto
termination
  by (relation "measure (\<lambda>n. n)") auto

declare str_nat.simps [simp del]


section \<open>Path functions of the standard library (POSIX flavour)\<close>

text \<open>
  \<^verbatim>\<open>str.rfind(c)\<close>: the index of the last occurrence of a character, or \<open>-1\<close>.
\<close>

fun rfind_from :: "char \<Rightarrow> string \<Rightarrow> int \<Rightarrow> int \<Rightarrow> int" where
  "rfind_from c [] i found = found"
| "rfind_from c (x # xs) i found = rfind_from c xs (i + 1) (if x = c then i else found)"

definition rfind :: "char \<Rightarrow> string \<Rightarrow> int" where
  "rfind c s = rfind_from c s 0 (- 1)"

text \<open>
  The loop of \<^verbatim>\<open>genericpath._splitext\<close> over the file name before its last dot: the
  name has an extension only if some character there is not a dot.
\<close>

fun has_non_dot :: "string \<Rightarrow> bool" where
  "has_non_dot [] = False"
| "has_non_dot (c # cs) = (if c \<noteq> CHR ''.'' then True else has_non_dot cs)"

text \<open>
  \<^verbatim>\<open>os.path.splitext(p)\<close>: the extension starts at the last dot, when that dot stands
  after the last slash and after a character of the file name that is not a dot.
\<close>

definition splitext :: "string \<Rightarrow> string \<times> string" where
  "splitext p =
     (let sepIndex = rfind CHR ''/'' p;
          dotIndex = rfind CHR ''.'' p
      in if dotIndex > sepIndex \<and>
            has_non_dot (take (nat (dotIndex - (sepIndex + 1))) (drop (nat (sepIndex + 1)) p))
         then (take (nat dotIndex) p, drop (nat dotIndex) p)
         else (p, []))"

text \<open>\<^verbatim>\<open>os.path.basename(p)\<close>: what follows the last slash.\<close>

definition basename :: "string \<Rightarrow> string" where
  "basename p = drop (nat (rfind CHR ''/'' p + 1)) p"

text \<open>\<^verbatim>\<open>os.path.join(a, b)\<close> for two components.\<close>

definition path_join :: "string \<Rightarrow> string \<Rightarrow> string" where
  "path_join a b =
     (if b \<noteq> [] \<and> hd b = CHR ''/'' then b
      else if a = [] \<or> last a = CHR ''/'' then a @ b
      else a @ ''/'' @ b)"

text \<open>
  \<^verbatim>\<open>str.lower()\<close> on the 8-bit characters of a path: the letters A to Z are mapped to
  a to z, every other character is kept.
\<close>

definition lower_char :: "char \<Rightarrow> char" where
  "lower_char c =
     (case map_of (zip ''ABCDEFGHIJKLMNOPQRSTUVWXYZ'' ''abcdefghijklmnopqrstuvwxyz'') c of
        Some l \<Rightarrow> l
      | None \<Rightarrow> c)"

definition lower :: "string \<Rightarrow> string" where
  "lower s = map lower_char s"


section \<open>Language Detector\<close>

text \<open>The dict literal \<^verbatim>\<open>language_map\<close> of \<^verbatim>\<open>detect_language\<close>, entry by entry.\<close>

definition language_map :: "(string \<times> string) list" where
  "language_map =
    [(''.js'', ''javascript''),
     (''.jsx'', ''jsx''),
     (''.ts'', ''typescript''),
     (''.tsx'', ''tsx''),
     (''.py'', ''python''),
     (''.java'', ''java''),
     (''.c'', ''c''),
     (''.cpp'', ''cpp''),
     (''.h'', ''c''),
     (''.hpp'', ''cpp''),
     (''.cs'', ''csharp''),
     (''.go'', ''go''),
     (''.rb'', ''ruby''),
     (''.php'', ''php''),
     (''.swift'', ''swift''),
     (''.kt'', ''kotlin''),
     (''.rs'', ''rust''),
     (''.html'', ''html''),
     (''.css'', ''css''),
     (''.scss'', ''scss''),
     (''.json'', ''json''),
     (''.md'', ''markdown''),
     (''.xml'', ''xml''),
     (''.yaml'', ''yaml''),
     (''.yml'', ''yaml''),
     (''.sh'', ''shell''),
     (''.bat'', ''batch''),
     (''.ps1'', ''powershell'')]"

definition detect_language :: "string \<Rightarrow> string" where
  "detect_language file_path =
     (let ext = lower (snd (splitext file_path))
      in dict_get language_map ext ''unknown'')"


section \<open>The world the program runs in\<close>

text \<open>
  The file system is a map from the path strings the program spells to what
  \<^verbatim>\<open>os.stat\<close> finds there: a regular file (whether it may be read, and its bytes) or a
  directory. Two spellings of one file are two keys; the program never rewrites a path.
  \<open>mkdir_ok\<close> says whether the operating system lets a missing directory be created.
  \<^verbatim>\<open>time.time()\<close> reads the wall clock: the \<open>n\<close>-th reading of a run is \<open>clock n\<close>, and
  nothing makes later readings larger. \<open>stdout\<close> holds the lines printed so far.
  \<open>calls\<close> is an observer added by the model: \<open>process_file\<close> appends its path
  argument on entry, so that the invocations of a run can be counted. Log lines go to
  the logging stream only and are left out.
\<close>

datatype node = File bool string | Dir

record world =
  fs :: "string \<Rightarrow> node option"
  mkdir_ok :: "string \<Rightarrow> bool"
  clock :: "nat \<Rightarrow> real"
  ticks :: nat
  stdout :: "string list"
  calls :: "string list"

text \<open>
  What a run takes from the platform and from libraries outside the repository:
  whether the import of numpy and scikit-learn succeeded (\<^verbatim>\<open>PYTHON_DEPS_AVAILABLE\<close>), the
  codec of the locale with \<^verbatim>\<open>errors='replace'\<close>, the size \<^verbatim>\<open>os.stat\<close> reports for a
  directory, \<^verbatim>\<open>TfidfVectorizer(max_features=100).fit_transform([content]).toarray()[0]\<close>
  (the text of the exception it raises, or the dense vector), the built-in \<^verbatim>\<open>hash\<close> of a
  string, \<^verbatim>\<open>json.load\<close> on the bytes of a manifest (the text of the exception, or the
  parsed object; the model covers JSON objects whose values are lists of strings), and
  \<^verbatim>\<open>json.dumps\<close>.
\<close>

record env =
  deps_available :: bool
  decode :: "string \<Rightarrow> pytext"
  dir_st_size :: int
  tfidf :: "pytext \<Rightarrow> string + real list"
  py_hash :: "string \<Rightarrow> int"
  json_load :: "string \<Rightarrow> string + (string \<times> string list) list"
  json_dumps :: "pyval \<Rightarrow> string"

text \<open>
  Exceptions: an \<^verbatim>\<open>OSError\<close> of the file system with its path, or an exception raised
  inside a library, known by its text. \<open>str_exn\<close> is \<^verbatim>\<open>str(e)\<close>, in CPython's wording for
  a path that needs no escaping.
\<close>

datatype oserror = ENOENT | EACCES | EEXIST | ENOTDIR | EISDIR

datatype exn = OSError oserror string | Raised string

fun errno :: "oserror \<Rightarrow> nat" where
  "errno ENOENT = 2"
| "errno EACCES = 13"
| "errno EEXIST = 17"
| "errno ENOTDIR = 20"
| "errno EISDIR = 21"

fun strerror :: "oserror \<Rightarrow> string" where
  "strerror ENOENT = ''No such file or directory''"
| "strerror EACCES = ''Permission denied''"
| "strerror EEXIST = ''File exists''"
| "strerror ENOTDIR = ''Not a directory''"
| "strerror EISDIR = ''Is a directory''"

fun str_exn :: "exn \<Rightarrow> string" where
  "str_exn (OSError c p) =
     ''[Errno '' @ str_nat (errno c) @ ''] '' @ strerror c @ '': '' @ [CHR 0x27] @ p @ [CHR 0x27]"
| "str_exn (Raised msg) = msg"

text \<open>\<^verbatim>\<open>os.path.exists\<close>; on a \<^verbatim>\<open>str\<close> it never raises.\<close>

definition path_exists :: "world \<Rightarrow> string \<Rightarrow> bool" where
  "path_exists w p = (fs w p \<noteq> None)"

text \<open>\<^verbatim>\<open>os.path.getsize\<close>: the size in bytes.\<close>

definition getsize :: "env \<Rightarrow> world \<Rightarrow> string \<Rightarrow> exn + int" where
  "getsize e w p =
     (case fs w p of
        None \<Rightarrow> Inl (OSError ENOENT p)
      | Some (File readable bytes) \<Rightarrow> Inr (int (length bytes))
      | Some Dir \<Rightarrow> Inr (dir_st_size e))"

text \<open>\<^verbatim>\<open>open(p, 'r')\<close> in binary terms: the bytes behind the handle.\<close>

definition open_read :: "world \<Rightarrow> string \<Rightarrow> exn + string" where
  "open_read w p =
     (case fs w p of
        None \<Rightarrow> Inl (OSError ENOENT p)
      | Some Dir \<Rightarrow> Inl (OSError EISDIR p)
      | Some (File readable bytes) \<Rightarrow> if readable then Inr bytes else Inl (OSError EACCES p))"

text \<open>
  Text mode translates line ends after decoding (universal newlines): a carriage return
  followed by a line feed, and a carriage return alone, become one line feed.
\<close>

fun universal_newlines :: "pytext \<Rightarrow> pytext" where
  "universal_newlines [] = []"
| "universal_newlines [c] = [if c = 13 then 10 else c]"
| "universal_newlines (c # d # ds) =
     (if c = 13 \<and> d = 10 then 10 # universal_newlines ds
      else (if c = 13 then 10 else c) # universal_newlines (d # ds))"

text \<open>What \<^verbatim>\<open>f.read()\<close> returns on \<^verbatim>\<open>open(p, 'r', errors='replace')\<close>.\<close>

definition open_text :: "env \<Rightarrow> world \<Rightarrow> string \<Rightarrow> exn + pytext" where
  "open_text e w p =
     (case open_read w p of
        Inl ex \<Rightarrow> Inl ex
      | Inr bytes \<Rightarrow> Inr (universal_newlines (decode e bytes)))"

text \<open>\<^verbatim>\<open>f.read(n)\<close> on a text handle: at most \<open>n\<close> characters; everything when \<open>n\<close> is negative.\<close>

definition read_chars :: "pytext \<Rightarrow> int \<Rightarrow> pytext" where
  "read_chars t n = (if n < 0 then t else take (nat n) t)"

text \<open>
  \<^verbatim>\<open>open(path, 'w')\<close> followed by one write of the whole content, for a file placed in
  directory \<open>dir\<close> as the program spells it; an empty \<open>dir\<close> is the working directory.
\<close>

definition write_text :: "world \<Rightarrow> string \<Rightarrow> string \<Rightarrow> string \<Rightarrow> exn + world" where
  "write_text w dir path content =
     (if dir \<noteq> [] \<and> fs w dir = None then Inl (OSError ENOENT path)
      else if dir \<noteq> [] \<and> fs w dir \<noteq> Some Dir then Inl (OSError ENOTDIR path)
      else (case fs w path of
              Some Dir \<Rightarrow> Inl (OSError EISDIR path)
            | Some (File readable old) \<Rightarrow> Inr (w\<lparr>fs := (fs w)(path \<mapsto> File readable content)\<rparr>)
            | None \<Rightarrow> Inr (w\<lparr>fs := (fs w)(path \<mapsto> File True content)\<rparr>)))"

text \<open>\<^verbatim>\<open>os.makedirs(p, exist_ok=True)\<close>.\<close>

definition makedirs :: "world \<Rightarrow> string \<Rightarrow> exn + world" where
  "makedirs w p =
     (case fs w p of
        Some Dir \<Rightarrow> Inr w
      | Some (File readable bytes) \<Rightarrow> Inl (OSError EEXIST p)
      | None \<Rightarrow>
          if p = [] then Inl (OSError ENOENT p)
          else if mkdir_ok w p then Inr (w\<lparr>fs := (fs w)(p \<mapsto> Dir)\<rparr>)
          else Inl (OSError EACCES p))"

text \<open>\<^verbatim>\<open>time.time()\<close>: the next reading of the clock.\<close>

definition time_time :: "world \<Rightarrow> real \<times> world" where
  "time_time w = (clock w (ticks w), w\<lparr>ticks := Suc (ticks w)\<rparr>)"


section \<open>The UTF-8 codec with replacement\<close>

text \<open>
  The codec of a UTF-8 locale under \<^verbatim>\<open>errors='replace'\<close>, after CPython's decoder: an
  ill-formed sequence gives U+FFFD (65533) for its longest well-formed start, and
  decoding goes on behind it.
\<close>

definition is_continuation :: "nat \<Rightarrow> bool" where
  "is_continuation b = (128 \<le> b \<and> b < 192)"

fun utf8_decode :: "nat list \<Rightarrow> pytext" where
  "utf8_decode [] = []"
| "utf8_decode (b # bs) =
    (if b < 128 then b # utf8_decode bs
     else if b < 194 then 65533 # utf8_decode bs
     else if b < 224 then
       (case bs of
          [] \<Rightarrow> [65533]
        | b2 # r2 \<Rightarrow>
            if is_continuation b2 then ((b - 192) * 64 + (b2 - 128)) # utf8_decode r2
            else 65533 # utf8_decode bs)
     else if b < 240 then
       (case bs of
          [] \<Rightarrow> [65533]
        | b2 # r2 \<Rightarrow>
            if \<not> is_continuation b2 \<or> (if b2 < 160 then b = 224 else b = 237)
            then 65533 # utf8_decode bs
            else (case r2 of
                    [] \<Rightarrow> [65533]
                  | b3 # r3 \<Rightarrow>
                      if is_continuation b3
                      then ((b - 224) * 4096 + (b2 - 128) * 64 + (b3 - 128)) # utf8_decode r3
                      else 65533 # utf8_decode r2))
     else if b < 245 then
       (case bs of
          [] \<Rightarrow> [65533]
        | b2 # r2 \<Rightarrow>
            if \<not> is_continuation b2 \<or> (if b2 < 144 then b = 240 else b = 244)
            then 65533 # utf8_decode bs
            else (case r2 of
                    [] \<Rightarrow> [65533]
                  | b3 # r3 \<Rightarrow>
                      if \<not> is_continuation b3 then 65533 # utf8_decode r2
                      else (case r3 of
                              [] \<Rightarrow> [65533]
                            | b4 # r4 \<Rightarrow>
                                if is_continuation b4
                                then ((b - 240) * 262144 + (b2 - 128) * 4096
                                        + (b3 - 128) * 64 + (b4 - 128)) # utf8_decode r4
                                else 65533 # utf8_decode r3)))
     else 65533 # utf8_decode bs)"

definition utf8_replace :: "string \<Rightarrow> pytext" where
  "utf8_replace bytes = utf8_decode (map of_char bytes)"


section \<open>Content Reader\<close>

definition read_file_content :: "env \<Rightarrow> world \<Rightarrow> string \<Rightarrow> int \<Rightarrow> pytext" where
  "read_file_content e w file_path max_size =
     (case getsize e w file_path of
        Inl ex \<Rightarrow> []
      | Inr file_size \<Rightarrow>
          if file_size > max_size then
            (case open_text e w file_path of
               Inl ex \<Rightarrow> []
             | Inr f \<Rightarrow> read_chars f max_size)
          else
            (case open_text e w file_path of
               Inl ex \<Rightarrow> []
             | Inr f \<Rightarrow> f))"


section \<open>Vectorizer\<close>

definition vectorize_content :: "env \<Rightarrow> pytext \<Rightarrow> string \<Rightarrow> pydict" where
  "vectorize_content e content file_path =
     (if \<not> deps_available e then
        [(''success'', PBool True),
         (''vector_size'', PInt 100),
         (''vector_type'', PStr ''mock'')]
      else
        (case tfidf e content of
           Inr dense_vector \<Rightarrow>
             [(''success'', PBool True),
              (''vector'', PList (map PFloat dense_vector)),
              (''vector_size'', PInt (int (length dense_vector))),
              (''vector_type'', PStr ''tfidf'')]
         | Inl msg \<Rightarrow>
             [(''success'', PBool False),
              (''error'', PStr msg)]))"


section \<open>File Processor\<close>

definition process_file :: "env \<Rightarrow> world \<Rightarrow> string \<Rightarrow> string \<Rightarrow> pydict \<times> world" where
  "process_file e w0 file_path output_dir =
     (let w = w0\<lparr>calls := calls w0 @ [file_path]\<rparr> in
      if \<not> path_exists w file_path then
        ([(''success'', PBool False),
          (''error'', PStr (''File not found: '' @ file_path))], w)
      else
        let language = detect_language file_path;
            content = read_file_content e w file_path (1024 * 1024)
        in
          if content = [] then
            ([(''success'', PBool False),
              (''error'', PStr ''Empty or unreadable file'')], w)
          else
            let vector_result = vectorize_content e content file_path in
              if \<not> success_of vector_result then (vector_result, w)
              else
                let file_basename = basename file_path;
                    (timestamp, w1) = time_time w;
                    vector_data =
                      [(''file'', PStr file_path),
                       (''language'', PStr language),
                       (''timestamp'', PFloat timestamp),
                       (''vectorization'', PDict vector_result)];
                    output_filename =
                      path_join output_dir
                        (str_nat (nat (py_hash e file_path mod 10000)) @ ''_'' @ file_basename
                           @ ''.vec.json'')
                in
                  (case write_text w1 output_dir output_filename (json_dumps e (PDict vector_data)) of
                     Inl ex \<Rightarrow>
                       ([(''success'', PBool False),
                         (''error'', PStr (str_exn ex))], w1)
                   | Inr w2 \<Rightarrow>
                       ([(''success'', PBool True),
                         (''language'', PStr language),
                         (''output_file'', PStr output_filename)], w2)))"


section \<open>Batch Orchestrator\<close>

text \<open>
  The variables of the loop over the manifest. \<^verbatim>\<open>languages_detected\<close> is a Python set;
  the model keeps its elements in a list without repetitions. Python fixes no order for
  \<^verbatim>\<open>list(languages_detected)\<close>, so only the set of its elements is meaningful.
\<close>

record loop_state =
  results :: "pydict list"
  processed_count :: int
  failed_count :: int
  languages_detected :: "pyval list"

definition loop_init :: loop_state where
  "loop_init = \<lparr>results = [], processed_count = 0, failed_count = 0, languages_detected = []\<rparr>"

fun process_files :: "env \<Rightarrow> string \<Rightarrow> string list \<Rightarrow> loop_state \<times> world \<Rightarrow> loop_state \<times> world" where
  "process_files e output_dir [] (s, w) = (s, w)"
| "process_files e output_dir (file_path # rest) (s, w) =
     (let (result, w') = process_file e w file_path output_dir;
          s1 = s\<lparr>results := results s @ [result]\<rparr>;
          s2 = (if success_of result then
                  s1\<lparr>processed_count := processed_count s1 + 1,
                     languages_detected :=
                       List.insert (dict_get result ''language'' (PStr ''unknown''))
                         (languages_detected s1)\<rparr>
                else s1\<lparr>failed_count := failed_count s1 + 1\<rparr>)
      in process_files e output_dir rest (s2, w'))"

text \<open>The handler of \<^verbatim>\<open>except Exception as e\<close> at the end of \<^verbatim>\<open>process_batch\<close>.\<close>

definition batch_error :: "exn \<Rightarrow> real \<Rightarrow> world \<Rightarrow> pydict \<times> world" where
  "batch_error ex start_time w =
     (let (now, w') = time_time w in
      ([(''success'', PBool False),
        (''message'', PStr (''Batch processing error: '' @ str_exn ex)),
        (''files_processed'', PInt 0),
        (''processing_time'', PFloat (now - start_time))], w'))"

definition process_batch :: "env \<Rightarrow> world \<Rightarrow> string \<Rightarrow> string \<Rightarrow> string \<Rightarrow> pydict \<times> world" where
  "process_batch e w batch_file output_dir job_id =
     (let (start_time, w0) = time_time w in
      case makedirs w0 output_dir of
        Inl ex \<Rightarrow> batch_error ex start_time w0
      | Inr w1 \<Rightarrow>
          (case open_read w1 batch_file of
             Inl ex \<Rightarrow> batch_error ex start_time w1
           | Inr bytes \<Rightarrow>
               (case json_load e bytes of
                  Inl msg \<Rightarrow> batch_error (Raised msg) start_time w1
                | Inr batch_data \<Rightarrow>
                    let files = dict_get batch_data ''files'' [] in
                    if files = [] then
                      (let (now, w2) = time_time w1 in
                       ([(''success'', PBool False),
                         (''message'', PStr ''No files in batch''),
                         (''files_processed'', PInt 0),
                         (''processing_time'', PFloat (now - start_time))], w2))
                    else
                      let (s, w2) = process_files e output_dir files (loop_init, w1);
                          (now, w3) = time_time w2;
                          total_time = now - start_time
                      in
                        ([(''success'', PBool True),
                          (''message'',
                             PStr (''Processed '' @ str_nat (nat (processed_count s)) @ '' files, ''
                                     @ str_nat (nat (failed_count s)) @ '' failed'')),
                          (''files_processed'', PInt (processed_count s)),
                          (''files_failed'', PInt (failed_count s)),
                          (''vectors_created'', PInt (processed_count s)),
                          (''languages_detected'', PList (languages_detected s)),
                          (''processing_time'', PFloat total_time),
                          (''files_per_second'',
                             if total_time > 0
                             then PFloat (real_of_int (processed_count s) / total_time)
                             else PInt 0)], w3))))"


section \<open>Entry Point\<close>

text \<open>The namespace \<^verbatim>\<open>parser.parse_args()\<close> returns; \<open>main\<close> is modelled from there on.\<close>

record args =
  arg_batch_file :: string
  arg_output_dir :: string
  arg_job_id :: string

definition main :: "env \<Rightarrow> world \<Rightarrow> args \<Rightarrow> int \<times> world" where
  "main e w a =
     (if \<not> path_exists w (arg_batch_file a) then (1, w)
      else
        let (result, w') = process_batch e w (arg_batch_file a) (arg_output_dir a) (arg_job_id a);
            w'' = w'\<lparr>stdout := stdout w' @ [json_dumps e (PDict result)]\<rparr>
        in (if success_of result then 0 else 1, w''))"


section \<open>Sample environments and worlds\<close>

text \<open>
  Stand-ins for the library functions, used where a statement is evaluated on concrete
  input: a parser that knows three manifests, a serializer that prints a fixed text, a
  hash that also takes negative values, and a vectorizer that fails on a text of fewer
  than two characters (scikit-learn's token pattern needs two) and else returns a
  one-term vector.
\<close>

definition stub_json_load :: "string \<Rightarrow> string + (string \<times> string list) list" where
  \<open>stub_json_load bytes =
     (if bytes = ''{"files": []}'' then Inr [(''files'', [])]
      else if bytes = ''{"files": ["a.py", "missing.rs"]}''
        then Inr [(''files'', [''a.py'', ''missing.rs''])]
      else if bytes = ''{}'' then Inr []
      else Inl ''Expecting value: line 1 column 1 (char 0)'')\<close>

definition stub_json_dumps :: "pyval \<Rightarrow> string" where
  "stub_json_dumps v = ''{}''"

definition stub_hash :: "string \<Rightarrow> int" where
  "stub_hash s = int (length s) * 7919 - 40000"

definition stub_tfidf :: "pytext \<Rightarrow> string + real list" where
  "stub_tfidf content =
     (if length content < 2
      then Inl ''empty vocabulary; perhaps the documents only contain stop words''
      else Inr [1])"

definition mock_env :: env where
  "mock_env =
     \<lparr>deps_available = False, decode = utf8_replace, dir_st_size = 4096,
      tfidf = (\<lambda>content. Inl ''name TfidfVectorizer is not defined''),
      py_hash = stub_hash, json_load = stub_json_load, json_dumps = stub_json_dumps\<rparr>"

definition sklearn_env :: env where
  "sklearn_env = mock_env\<lparr>deps_available := True, tfidf := stub_tfidf\<rparr>"

definition sample_fs :: "string \<Rightarrow> node option" where
  \<open>sample_fs =
     [''batch.json'' \<mapsto> File True ''{"files": ["a.py", "missing.rs"]}'',
      ''empty.json'' \<mapsto> File True ''{"files": []}'',
      ''a.py'' \<mapsto> File True ''print(1)'',
      ''x.py'' \<mapsto> File True ''x'',
      ''blank.py'' \<mapsto> File True [],
      ''secret.py'' \<mapsto> File False ''key = 1'',
      ''cafe.txt'' \<mapsto> File True [CHR 0xC3, CHR 0xA9, CHR ''a''],
      ''out'' \<mapsto> Dir]\<close>

definition sample_world :: world where
  "sample_world =
     \<lparr>fs = sample_fs, mkdir_ok = (\<lambda>p. True), clock = (\<lambda>n. 100 + real n), ticks = 0,
      stdout = [], calls = []\<rparr>"

text \<open>The same world with a wall clock that is set back after its first reading.\<close>

definition stepped_back_world :: world where
  "stepped_back_world = sample_world\<lparr>clock := (\<lambda>n. if n = 0 then 10 else 5)\<rparr>"


section \<open>Language Detector: the table decides\<close>

lemma language_map_distinct: "distinct (map fst language_map)"
  by (simp add: language_map_def)

lemma ext_Main_PY: "lower (snd (splitext ''src/Main.PY'')) = ''.py''"
  by (simp add: splitext_def rfind_def lower_def lower_char_def)

lemma ext_notes_txt: "lower (snd (splitext ''notes.txt'')) = ''.txt''"
  by (simp add: splitext_def rfind_def lower_def lower_char_def)

text \<open>
  Claim C4. For every file path, \<open>detect_language\<close> returns the label the table maps the
  path's lower-cased extension to, when the table has an entry for that extension, and
  \<open>''unknown''\<close> for every extension the table does not list. The keys of the table are
  distinct, so an entry of the table is the entry the lookup finds.
\<close>

theorem detect_language_table:
  "((ext, label) \<in> set language_map \<and> lower (snd (splitext file_path)) = ext
      \<longrightarrow> detect_language file_path = label) \<and>
   (lower (snd (splitext file_path)) \<notin> fst ` set language_map
      \<longrightarrow> detect_language file_path = ''unknown'')"
proof (intro conjI impI)
  assume "(ext, label) \<in> set language_map \<and> lower (snd (splitext file_path)) = ext"
  then have "map_of language_map (lower (snd (splitext file_path))) = Some label"
    using language_map_distinct by (simp add: map_of_eq_Some_iff)
  then show "detect_language file_path = label"
    by (simp add: detect_language_def dict_get_def)
next
  assume "lower (snd (splitext file_path)) \<notin> fst ` set language_map"
  then have "map_of language_map (lower (snd (splitext file_path))) = None"
    by (simp add: map_of_eq_None_iff)
  then show "detect_language file_path = ''unknown''"
    by (simp add: detect_language_def dict_get_def)
qed

theorem detect_language_table_witness:
  "(''.py'', ''python'') \<in> set language_map \<and>
   lower (snd (splitext ''src/Main.PY'')) = ''.py'' \<and>
   detect_language ''src/Main.PY'' = ''python'' \<and>
   lower (snd (splitext ''notes.txt'')) \<notin> fst ` set language_map \<and>
   detect_language ''notes.txt'' = ''unknown''"
proof -
  have a: "(''.py'', ''python'') \<in> set language_map"
    by (simp add: language_map_def)
  have b: "lower (snd (splitext ''notes.txt'')) \<notin> fst ` set language_map"
    by (simp add: ext_notes_txt language_map_def)
  show ?thesis
    using a b ext_Main_PY
      detect_language_table [of "''.py''" "''python''" "''src/Main.PY''"]
      detect_language_table [of "''.py''" "''python''" "''notes.txt''"]
    by simp
qed


section \<open>Vectorizer: the stub of the missing dependency\<close>

lemma vectorize_content_has_success:
  "map_of (vectorize_content e content file_path) ''success'' \<noteq> None"
  by (simp add: vectorize_content_def split: sum.splits)

text \<open>
  Claim C5. When the vectorization dependency is unavailable, \<open>vectorize_content\<close>
  returns, for every content and path, exactly the record with \<open>success = True\<close>,
  \<open>vector_size = 100\<close> and \<open>vector_type = ''mock''\<close>, and that record has no key
  \<open>''vector''\<close>.
\<close>

theorem vectorize_content_mock:
  "\<not> deps_available e \<Longrightarrow>
     vectorize_content e content file_path =
       [(''success'', PBool True), (''vector_size'', PInt 100), (''vector_type'', PStr ''mock'')] \<and>
     map_of (vectorize_content e content file_path) ''vector'' = None"
  by (simp add: vectorize_content_def)

theorem vectorize_content_mock_witness:
  "\<not> deps_available mock_env \<and>
   vectorize_content mock_env [112, 61, 49] ''a.py'' =
     [(''success'', PBool True), (''vector_size'', PInt 100), (''vector_type'', PStr ''mock'')] \<and>
   map_of (vectorize_content mock_env [112, 61, 49] ''a.py'') ''vector'' = None"
proof -
  have h: "\<not> deps_available mock_env"
    by (simp add: mock_env_def)
  show ?thesis
    using h vectorize_content_mock [OF h, of "[112, 61, 49]" "''a.py''"] by simp
qed



section \<open>Content Reader: the limit counts bytes, the cut counts characters\<close>

lemma utf8_decode_ascii: "\<forall>b \<in> set bs. b < 128 \<Longrightarrow> utf8_decode bs = bs"
  by (induction bs) auto

lemma universal_newlines_no_cr: "13 \<notin> set t \<Longrightarrow> universal_newlines t = t"
  by (induction t rule: universal_newlines.induct) auto

lemma ascii_text:
  assumes "\<forall>b \<in> set bytes. (of_char b :: nat) < 128 \<and> (of_char b :: nat) \<noteq> 13"
  shows "universal_newlines (utf8_replace bytes) = map of_char bytes"
proof -
  have "utf8_decode (map of_char bytes) = map of_char bytes"
    using assms by (intro utf8_decode_ascii) auto
  moreover have "13 \<notin> set (map of_char bytes :: nat list)"
    using assms by auto
  ultimately show ?thesis
    by (simp add: utf8_replace_def universal_newlines_no_cr)
qed

text \<open>
  Claim C3, as amended. For every readable file and every limit \<open>max_size \<ge> 0\<close>: when the
  size of the file in bytes exceeds the limit, \<open>read_file_content\<close> returns the first
  \<open>max_size\<close> characters of the decoded text of the file, so at most \<open>max_size\<close>
  characters; at or under the limit it returns the whole decoded text. The size is
  counted in bytes and the text is cut in characters. For ASCII content without carriage
  returns under the UTF-8 codec the result is exactly the first \<open>max_size\<close> bytes.
\<close>

theorem read_file_content_limit:
  "fs w file_path = Some (File True bytes) \<and> 0 \<le> max_size \<longrightarrow>
     read_file_content e w file_path max_size =
       (if int (length bytes) > max_size
        then take (nat max_size) (universal_newlines (decode e bytes))
        else universal_newlines (decode e bytes)) \<and>
     (int (length bytes) > max_size \<longrightarrow>
        length (read_file_content e w file_path max_size) \<le> nat max_size) \<and>
     (decode e = utf8_replace \<and> (\<forall>b \<in> set bytes. (of_char b :: nat) < 128 \<and> (of_char b :: nat) \<noteq> 13) \<longrightarrow>
        read_file_content e w file_path max_size =
          map of_char (if int (length bytes) > max_size then take (nat max_size) bytes else bytes))"
proof (intro impI, elim conjE)
  assume f: "fs w file_path = Some (File True bytes)" and m: "0 \<le> max_size"
  have r: "read_file_content e w file_path max_size =
       (if int (length bytes) > max_size
        then take (nat max_size) (universal_newlines (decode e bytes))
        else universal_newlines (decode e bytes))"
    using f m by (simp add: read_file_content_def getsize_def open_text_def open_read_def read_chars_def)
  have l: "int (length bytes) > max_size \<longrightarrow>
        length (read_file_content e w file_path max_size) \<le> nat max_size"
    by (simp add: r)
  have a: "decode e = utf8_replace \<and> (\<forall>b \<in> set bytes. (of_char b :: nat) < 128 \<and> (of_char b :: nat) \<noteq> 13) \<longrightarrow>
        read_file_content e w file_path max_size =
          map of_char (if int (length bytes) > max_size then take (nat max_size) bytes else bytes)"
    by (simp add: r ascii_text take_map)
  from r l a show "read_file_content e w file_path max_size =
       (if int (length bytes) > max_size
        then take (nat max_size) (universal_newlines (decode e bytes))
        else universal_newlines (decode e bytes)) \<and>
     (int (length bytes) > max_size \<longrightarrow>
        length (read_file_content e w file_path max_size) \<le> nat max_size) \<and>
     (decode e = utf8_replace \<and> (\<forall>b \<in> set bytes. (of_char b :: nat) < 128 \<and> (of_char b :: nat) \<noteq> 13) \<longrightarrow>
        read_file_content e w file_path max_size =
          map of_char (if int (length bytes) > max_size then take (nat max_size) bytes else bytes))"
    by blast
qed

lemma sample_a_py: "fs sample_world ''a.py'' = Some (File True ''print(1)'')"
  by (simp add: sample_world_def sample_fs_def)

lemma sample_cafe: "fs sample_world ''cafe.txt'' = Some (File True [CHR 0xC3, CHR 0xA9, CHR ''a''])"
  by (simp add: sample_world_def sample_fs_def)

theorem read_file_content_limit_witness:
  "fs sample_world ''a.py'' = Some (File True ''print(1)'') \<and> (0::int) \<le> 5 \<and>
   int (length ''print(1)'') > 5 \<and>
   decode mock_env = utf8_replace \<and>
   read_file_content mock_env sample_world ''a.py'' 5 = [112, 114, 105, 110, 116] \<and>
   read_file_content mock_env sample_world ''a.py'' (1024 * 1024) = [112, 114, 105, 110, 116, 40, 49, 41]"
proof -
  have d: "decode mock_env = utf8_replace" by (simp add: mock_env_def)
  have b: "\<forall>b \<in> set ''print(1)''. (of_char b :: nat) < 128 \<and> (of_char b :: nat) \<noteq> 13" by simp
  show ?thesis
    using sample_a_py d b
      read_file_content_limit [of sample_world "''a.py''" "''print(1)''" 5 mock_env]
      read_file_content_limit [of sample_world "''a.py''" "''print(1)''" "1024 * 1024" mock_env]
    by (simp add: utf8_replace_def)
qed

text \<open>
  The claim as the specification states it fails on a file with a character of two
  bytes. The file \<open>cafe.txt\<close> holds the three bytes C3 A9 61; with a limit of two bytes
  the size exceeds the limit, and the text read is the two characters of the whole file,
  not the one character that the first two bytes hold.
\<close>

theorem read_file_content_bytes_counterexample:
  "getsize mock_env sample_world ''cafe.txt'' = Inr 3 \<and> (3::int) > 2 \<and>
   read_file_content mock_env sample_world ''cafe.txt'' 2 = [233, 97] \<and>
   universal_newlines (utf8_replace [CHR 0xC3, CHR 0xA9, CHR ''a'']) = [233, 97] \<and>
   universal_newlines (utf8_replace (take 2 [CHR 0xC3, CHR 0xA9, CHR ''a''])) = [233] \<and>
   read_file_content mock_env sample_world ''cafe.txt'' 2
     \<noteq> universal_newlines (utf8_replace (take 2 [CHR 0xC3, CHR 0xA9, CHR ''a'']))"
  by (simp add: read_file_content_def getsize_def open_text_def open_read_def read_chars_def
      sample_cafe mock_env_def utf8_replace_def is_continuation_def)



section \<open>File Processor: failures are results, and write nothing\<close>

lemma path_exists_calls [simp]: "path_exists (w\<lparr>calls := c\<rparr>) p = path_exists w p"
  by (simp add: path_exists_def)

lemma getsize_calls [simp]: "getsize e (w\<lparr>calls := c\<rparr>) p = getsize e w p"
  by (simp add: getsize_def)

lemma open_text_calls [simp]: "open_text e (w\<lparr>calls := c\<rparr>) p = open_text e w p"
  by (simp add: open_text_def open_read_def)

lemma read_file_content_calls [simp]:
  "read_file_content e (w\<lparr>calls := c\<rparr>) p m = read_file_content e w p m"
  by (simp add: read_file_content_def split: sum.splits)

lemma success_of_literal [simp]:
  "success_of ((''success'', PBool b) # rest) = b"
  by (simp add: success_of_def)

lemma process_file_has_success:
  "\<exists>b. map_of (fst (process_file e w file_path output_dir)) ''success'' = Some (PBool b)"
proof -
  have v: "\<exists>b. map_of (vectorize_content e c file_path) ''success'' = Some (PBool b)" for c
    by (auto simp: vectorize_content_def split: sum.splits)
  show ?thesis
    using v by (auto simp: process_file_def Let_def split: prod.splits sum.splits)
qed

text \<open>
  Claim C8. \<open>process_file\<close> returns the record with \<open>success = False\<close> and the error
  \<open>File not found: <path>\<close> for every path that does not exist; the record with the
  error \<open>Empty or unreadable file\<close> whenever the path exists and the content read is
  empty; and, when the vectorizer reports a failure, the vectorizer's record unchanged.
  No exception escapes: on every input the call returns a record that holds the key
  \<open>success\<close> with a Boolean value.
\<close>

theorem process_file_failures:
  "(\<not> path_exists w file_path \<longrightarrow>
      fst (process_file e w file_path output_dir) =
        [(''success'', PBool False), (''error'', PStr (''File not found: '' @ file_path))]) \<and>
   (path_exists w file_path \<and> read_file_content e w file_path (1024 * 1024) = [] \<longrightarrow>
      fst (process_file e w file_path output_dir) =
        [(''success'', PBool False), (''error'', PStr ''Empty or unreadable file'')]) \<and>
   (path_exists w file_path \<and> read_file_content e w file_path (1024 * 1024) \<noteq> [] \<and>
    \<not> success_of (vectorize_content e (read_file_content e w file_path (1024 * 1024)) file_path) \<longrightarrow>
      fst (process_file e w file_path output_dir) =
        vectorize_content e (read_file_content e w file_path (1024 * 1024)) file_path) \<and>
   (\<exists>b. map_of (fst (process_file e w file_path output_dir)) ''success'' = Some (PBool b))"
proof (intro conjI impI)
  show "\<exists>b. map_of (fst (process_file e w file_path output_dir)) ''success'' = Some (PBool b)"
    by (rule process_file_has_success)
qed (simp_all add: process_file_def Let_def)

lemma sample_exists:
  "\<not> path_exists sample_world ''missing.rs''"
  "path_exists sample_world ''blank.py''"
  "path_exists sample_world ''x.py''"
  "path_exists sample_world ''secret.py''"
  by (simp_all add: path_exists_def sample_world_def sample_fs_def)

lemma sample_contents:
  "read_file_content sklearn_env sample_world ''blank.py'' (1024 * 1024) = []"
  "read_file_content sklearn_env sample_world ''secret.py'' (1024 * 1024) = []"
  "read_file_content sklearn_env sample_world ''x.py'' (1024 * 1024) = [120]"
  by (simp_all add: read_file_content_def getsize_def open_text_def open_read_def
      sample_world_def sample_fs_def sklearn_env_def mock_env_def utf8_replace_def)

lemma sample_vector_failure:
  "vectorize_content sklearn_env [120] ''x.py'' =
     [(''success'', PBool False),
      (''error'', PStr ''empty vocabulary; perhaps the documents only contain stop words'')]"
  by (simp add: vectorize_content_def sklearn_env_def mock_env_def stub_tfidf_def)

theorem process_file_failures_witness:
  "\<not> path_exists sample_world ''missing.rs'' \<and>
   fst (process_file sklearn_env sample_world ''missing.rs'' ''out'') =
     [(''success'', PBool False), (''error'', PStr ''File not found: missing.rs'')] \<and>
   path_exists sample_world ''blank.py'' \<and>
   read_file_content sklearn_env sample_world ''blank.py'' (1024 * 1024) = [] \<and>
   fst (process_file sklearn_env sample_world ''blank.py'' ''out'') =
     [(''success'', PBool False), (''error'', PStr ''Empty or unreadable file'')] \<and>
   path_exists sample_world ''x.py'' \<and>
   read_file_content sklearn_env sample_world ''x.py'' (1024 * 1024) = [120] \<and>
   fst (process_file sklearn_env sample_world ''x.py'' ''out'') =
     [(''success'', PBool False),
      (''error'', PStr ''empty vocabulary; perhaps the documents only contain stop words'')]"
  using sample_exists sample_contents sample_vector_failure
    process_file_failures [of sample_world "''missing.rs''" sklearn_env "''out''"]
    process_file_failures [of sample_world "''blank.py''" sklearn_env "''out''"]
    process_file_failures [of sample_world "''x.py''" sklearn_env "''out''"]
  by simp

lemma fs_time_time [simp]: "fs (snd (time_time w)) = fs w"
  by (simp add: time_time_def)





section \<open>Batch Orchestrator: the loop over the manifest\<close>

text \<open>
  What one call of \<open>process_file\<close> does to the world besides the file system, and the
  invariant of the loop: each path adds one call, one result and one count.
\<close>

lemma process_file_world:
  "calls (snd (process_file e w file_path output_dir)) = calls w @ [file_path] \<and>
   stdout (snd (process_file e w file_path output_dir)) = stdout w \<and>
   ticks w \<le> ticks (snd (process_file e w file_path output_dir))"
  by (auto simp: process_file_def Let_def time_time_def write_text_def
      split: prod.splits sum.splits if_splits option.splits node.splits)

lemma process_file_language:
  "success_of (fst (process_file e w file_path output_dir)) \<Longrightarrow>
     dict_get (fst (process_file e w file_path output_dir)) ''language'' (PStr ''unknown'')
       = PStr (detect_language file_path)"
  by (auto simp: process_file_def Let_def dict_get_def
      split: prod.splits sum.splits if_splits)

lemma process_files_inv:
  "process_files e output_dir files (s, w) = (s', w') \<Longrightarrow>
     calls w' = calls w @ files \<and> stdout w' = stdout w \<and> ticks w \<le> ticks w' \<and>
     (\<exists>new. results s' = results s @ new \<and> length new = length files \<and>
        processed_count s' = processed_count s + int (length (filter success_of new)) \<and>
        failed_count s' = failed_count s + int (length (filter (\<lambda>r. \<not> success_of r) new)) \<and>
        set (languages_detected s') =
          set (languages_detected s) \<union>
            (\<lambda>r. dict_get r ''language'' (PStr ''unknown'')) ` {r \<in> set new. success_of r} \<and>
        (\<lambda>r. dict_get r ''language'' (PStr ''unknown'')) ` {r \<in> set new. success_of r}
          \<subseteq> (\<lambda>p. PStr (detect_language p)) ` set files)"
proof (induction files arbitrary: s w)
  case Nil
  then show ?case by simp
next
  case (Cons file_path rest)
  obtain result w1 where pf: "process_file e w file_path output_dir = (result, w1)"
    by (cases "process_file e w file_path output_dir")
  define s1 where "s1 = s\<lparr>results := results s @ [result]\<rparr>"
  define s2 where "s2 =
    (if success_of result then
       s1\<lparr>processed_count := processed_count s1 + 1,
          languages_detected :=
            List.insert (dict_get result ''language'' (PStr ''unknown''))
              (languages_detected s1)\<rparr>
     else s1\<lparr>failed_count := failed_count s1 + 1\<rparr>)"
  have step: "process_files e output_dir rest (s2, w1) = (s', w')"
    using Cons.prems pf by (cases "success_of result") (simp_all add: s1_def s2_def Let_def)
  from Cons.IH [OF step] obtain new where
    w: "calls w' = calls w1 @ rest" "stdout w' = stdout w1" "ticks w1 \<le> ticks w'" and
    n: "results s' = results s2 @ new" "length new = length rest"
       "processed_count s' = processed_count s2 + int (length (filter success_of new))"
       "failed_count s' = failed_count s2 + int (length (filter (\<lambda>r. \<not> success_of r) new))"
       "set (languages_detected s') =
          set (languages_detected s2) \<union>
            (\<lambda>r. dict_get r ''language'' (PStr ''unknown'')) ` {r \<in> set new. success_of r}"
       "(\<lambda>r. dict_get r ''language'' (PStr ''unknown'')) ` {r \<in> set new. success_of r}
          \<subseteq> (\<lambda>p. PStr (detect_language p)) ` set rest"
    by blast
  have w1: "calls w1 = calls w @ [file_path]" "stdout w1 = stdout w" "ticks w \<le> ticks w1"
    using process_file_world [of e w file_path output_dir] pf by simp_all
  have lang: "success_of result \<Longrightarrow>
      dict_get result ''language'' (PStr ''unknown'') = PStr (detect_language file_path)"
    using process_file_language [of e w file_path output_dir] pf by simp
  have a: "calls w' = calls w @ file_path # rest \<and> stdout w' = stdout w \<and> ticks w \<le> ticks w'"
    using w w1 by simp
  have b: "results s' = results s @ (result # new) \<and>
        length (result # new) = length (file_path # rest)"
    using n by (simp add: s1_def s2_def)
  have c: "processed_count s' =
             processed_count s + int (length (filter success_of (result # new))) \<and>
           failed_count s' =
             failed_count s + int (length (filter (\<lambda>r. \<not> success_of r) (result # new)))"
    using n by (simp add: s1_def s2_def)
  have d: "set (languages_detected s') =
          set (languages_detected s) \<union>
            (\<lambda>r. dict_get r ''language'' (PStr ''unknown'')) ` {r \<in> set (result # new). success_of r}"
    using n by (auto simp: s1_def s2_def)
  have f: "(\<lambda>r. dict_get r ''language'' (PStr ''unknown'')) ` {r \<in> set (result # new). success_of r}
          \<subseteq> (\<lambda>p. PStr (detect_language p)) ` set (file_path # rest)"
    using n(6) lang by auto
  from a b c d f show ?case by blast
qed



section \<open>Batch Orchestrator: the empty manifest\<close>

lemma process_batch_has_success:
  "\<exists>b. map_of (fst (process_batch e w batch_file output_dir job_id)) ''success'' = Some (PBool b)"
  by (auto simp: process_batch_def batch_error_def Let_def split: prod.splits sum.splits)

lemma makedirs_world:
  "makedirs w p = Inr w1 \<Longrightarrow>
     calls w1 = calls w \<and> stdout w1 = stdout w \<and> ticks w1 = ticks w \<and> clock w1 = clock w"
  by (auto simp: makedirs_def split: option.splits node.splits if_splits)

lemma makedirs_keeps_files:
  "makedirs w p = Inr w1 \<Longrightarrow> fs w q = Some (File r bytes) \<Longrightarrow> fs w1 q = Some (File r bytes)"
  by (auto simp: makedirs_def split: option.splits node.splits if_splits)

text \<open>
  Claim C1, as amended. For every manifest whose \<open>files\<close> list is empty,
  \<open>process_batch\<close> returns a summary with \<open>files_processed = 0\<close> and
  \<open>success = False\<close>, and \<open>process_file\<close> is never invoked: the record of calls
  is the one before the run. This holds whether or not the output directory could be
  created.
\<close>

theorem process_batch_empty:
  "fs w batch_file = Some (File True bytes) \<and> json_load e bytes = Inr batch_data \<and>
   dict_get batch_data ''files'' [] = [] \<longrightarrow>
     map_of (fst (process_batch e w batch_file output_dir job_id)) ''files_processed'' = Some (PInt 0) \<and>
     map_of (fst (process_batch e w batch_file output_dir job_id)) ''success'' = Some (PBool False) \<and>
     calls (snd (process_batch e w batch_file output_dir job_id)) = calls w"
proof (intro impI, elim conjE)
  assume f: "fs w batch_file = Some (File True bytes)"
    and j: "json_load e bytes = Inr batch_data"
    and d: "dict_get batch_data ''files'' [] = []"
  let ?w0 = "snd (time_time w)"
  have f0: "fs ?w0 batch_file = Some (File True bytes)"
    using f by (simp add: time_time_def)
  have c0: "calls ?w0 = calls w"
    by (simp add: time_time_def)
  show "map_of (fst (process_batch e w batch_file output_dir job_id)) ''files_processed'' = Some (PInt 0) \<and>
     map_of (fst (process_batch e w batch_file output_dir job_id)) ''success'' = Some (PBool False) \<and>
     calls (snd (process_batch e w batch_file output_dir job_id)) = calls w"
  proof (cases "makedirs ?w0 output_dir")
    case (Inl ex)
    then show ?thesis
      using c0 by (simp add: process_batch_def batch_error_def time_time_def Let_def split_def)
  next
    case (Inr w1)
    have o: "open_read w1 batch_file = Inr bytes"
      using makedirs_keeps_files [OF Inr f0] by (simp add: open_read_def)
    have c1: "calls w1 = calls w"
      using makedirs_world [OF Inr] c0 by simp
    show ?thesis
      using Inr o j d c1
      by (simp add: process_batch_def time_time_def Let_def split_def)
  qed
qed

lemma sample_empty_json:
  \<open>fs sample_world ''empty.json'' = Some (File True ''{"files": []}'')\<close>
  by (simp add: sample_world_def sample_fs_def)

lemma sample_empty_parse:
  \<open>json_load mock_env ''{"files": []}'' = Inr [(''files'', [])]\<close>
  by (simp add: mock_env_def stub_json_load_def)

lemma sample_empty_run:
  "fst (process_batch mock_env sample_world ''empty.json'' ''out'' job_id) =
     [(''success'', PBool False),
      (''message'', PStr ''No files in batch''),
      (''files_processed'', PInt 0),
      (''processing_time'', PFloat 1)]"
  by (simp add: process_batch_def time_time_def makedirs_def open_read_def Let_def dict_get_def
      sample_world_def sample_fs_def mock_env_def stub_json_load_def)

theorem process_batch_empty_witness:
  \<open>fs sample_world ''empty.json'' = Some (File True ''{"files": []}'') \<and>
   json_load mock_env ''{"files": []}'' = Inr [(''files'', [])] \<and>
   dict_get [(''files'', [])] ''files'' [] = ([] :: string list) \<and>
   map_of (fst (process_batch mock_env sample_world ''empty.json'' ''out'' ''job''))
     ''files_processed'' = Some (PInt 0) \<and>
   map_of (fst (process_batch mock_env sample_world ''empty.json'' ''out'' ''job''))
     ''success'' = Some (PBool False) \<and>
   calls (snd (process_batch mock_env sample_world ''empty.json'' ''out'' ''job'')) = []\<close>
proof -
  have d: "dict_get [(''files'', [])] ''files'' [] = ([] :: string list)"
    by (simp add: dict_get_def)
  have c: "calls sample_world = []"
    by (simp add: sample_world_def)
  show ?thesis
    using sample_empty_json sample_empty_parse d c
      process_batch_empty [of sample_world "''empty.json''" _ mock_env "[(''files'', [])]" "''out''" "''job''"]
    by simp
qed

text \<open>
  The claim as the specification states it asks for \<open>success = True\<close>. On the manifest
  \<^verbatim>\<open>{"files": []}\<close> the summary is the short one, with \<open>success = False\<close> and the
  message \<open>No files in batch\<close>.
\<close>

theorem process_batch_empty_counterexample:
  \<open>fs sample_world ''empty.json'' = Some (File True ''{"files": []}'') \<and>
   json_load mock_env ''{"files": []}'' = Inr [(''files'', [])] \<and>
   fst (process_batch mock_env sample_world ''empty.json'' ''out'' ''job'') =
     [(''success'', PBool False),
      (''message'', PStr ''No files in batch''),
      (''files_processed'', PInt 0),
      (''processing_time'', PFloat 1)] \<and>
   \<not> success_of (fst (process_batch mock_env sample_world ''empty.json'' ''out'' ''job''))\<close>
  by (simp add: process_batch_def time_time_def makedirs_def open_read_def Let_def dict_get_def
      sample_world_def sample_fs_def mock_env_def stub_json_load_def)



section \<open>Batch Orchestrator: one result and one count per path\<close>

lemma loop_init_fields [simp]:
  "results loop_init = []" "processed_count loop_init = 0" "failed_count loop_init = 0"
  "languages_detected loop_init = []"
  by (simp_all add: loop_init_def)

lemma process_batch_loop:
  assumes "makedirs (snd (time_time w)) output_dir = Inr w1"
    and "open_read w1 batch_file = Inr bytes"
    and "json_load e bytes = Inr batch_data"
    and "dict_get batch_data ''files'' [] = files"
    and "files \<noteq> []"
    and "process_files e output_dir files (loop_init, w1) = (s, w2)"
  shows "process_batch e w batch_file output_dir job_id =
     ([(''success'', PBool True),
       (''message'',
          PStr (''Processed '' @ str_nat (nat (processed_count s)) @ '' files, ''
                  @ str_nat (nat (failed_count s)) @ '' failed'')),
       (''files_processed'', PInt (processed_count s)),
       (''files_failed'', PInt (failed_count s)),
       (''vectors_created'', PInt (processed_count s)),
       (''languages_detected'', PList (languages_detected s)),
       (''processing_time'', PFloat (fst (time_time w2) - fst (time_time w))),
       (''files_per_second'',
          if fst (time_time w2) - fst (time_time w) > 0
          then PFloat (real_of_int (processed_count s) / (fst (time_time w2) - fst (time_time w)))
          else PInt 0)], snd (time_time w2))"
  using assms by (simp add: process_batch_def Let_def split_def)

text \<open>
  Claim C2, as amended. For every non-empty manifest list of \<open>N\<close> file paths that
  \<open>process_batch\<close> loads (the output directory was created or exists, the manifest was
  opened and parsed), \<open>process_file\<close> is invoked exactly once per path, in the order
  of the list; the loop keeps one result per path; \<open>files_processed\<close> is the number
  of successful results and \<open>files_failed\<close> the number of failed ones, so that their
  sum is \<open>N\<close>; and \<open>languages_detected\<close> holds exactly the languages of the successful
  results, each the language detected for a path of the list.
\<close>

theorem process_batch_counts:
  "makedirs (snd (time_time w)) output_dir = Inr w1 \<and>
   open_read w1 batch_file = Inr bytes \<and>
   json_load e bytes = Inr batch_data \<and>
   dict_get batch_data ''files'' [] = files \<and>
   files \<noteq> [] \<and>
   process_files e output_dir files (loop_init, w1) = (s, w2) \<longrightarrow>
     calls (snd (process_batch e w batch_file output_dir job_id)) = calls w @ files \<and>
     length (results s) = length files \<and>
     map_of (fst (process_batch e w batch_file output_dir job_id)) ''files_processed''
       = Some (PInt (int (length (filter success_of (results s))))) \<and>
     map_of (fst (process_batch e w batch_file output_dir job_id)) ''files_failed''
       = Some (PInt (int (length (filter (\<lambda>r. \<not> success_of r) (results s))))) \<and>
     int (length (filter success_of (results s)))
       + int (length (filter (\<lambda>r. \<not> success_of r) (results s))) = int (length files) \<and>
     map_of (fst (process_batch e w batch_file output_dir job_id)) ''languages_detected''
       = Some (PList (languages_detected s)) \<and>
     set (languages_detected s)
       = (\<lambda>r. dict_get r ''language'' (PStr ''unknown'')) ` {r \<in> set (results s). success_of r} \<and>
     set (languages_detected s) \<subseteq> (\<lambda>p. PStr (detect_language p)) ` set files"
proof (intro impI, elim conjE)
  assume m: "makedirs (snd (time_time w)) output_dir = Inr w1"
    and o: "open_read w1 batch_file = Inr bytes"
    and j: "json_load e bytes = Inr batch_data"
    and d: "dict_get batch_data ''files'' [] = files"
    and ne: "files \<noteq> []"
    and l: "process_files e output_dir files (loop_init, w1) = (s, w2)"
  note run = process_batch_loop [OF m o j d ne l, of job_id]
  from process_files_inv [OF l] obtain new where
    c: "calls w2 = calls w1 @ files" and
    r: "results s = new" "length new = length files" and
    p: "processed_count s = int (length (filter success_of new))" and
    f: "failed_count s = int (length (filter (\<lambda>r. \<not> success_of r) new))" and
    g: "set (languages_detected s) =
          (\<lambda>r. dict_get r ''language'' (PStr ''unknown'')) ` {r \<in> set new. success_of r}" and
    h: "(\<lambda>r. dict_get r ''language'' (PStr ''unknown'')) ` {r \<in> set new. success_of r}
          \<subseteq> (\<lambda>p. PStr (detect_language p)) ` set files"
    by auto
  have c1: "calls w1 = calls w"
    using makedirs_world [OF m] by (simp add: time_time_def)
  have calls: "calls (snd (process_batch e w batch_file output_dir job_id)) = calls w @ files"
    using c c1 by (simp add: run time_time_def)
  have len: "length (results s) = length files"
    using r by simp
  have fp: "map_of (fst (process_batch e w batch_file output_dir job_id)) ''files_processed''
       = Some (PInt (int (length (filter success_of (results s)))))"
    using p r by (simp add: run)
  have ff: "map_of (fst (process_batch e w batch_file output_dir job_id)) ''files_failed''
       = Some (PInt (int (length (filter (\<lambda>r. \<not> success_of r) (results s)))))"
    using f r by (simp add: run)
  have total: "int (length (filter success_of (results s)))
       + int (length (filter (\<lambda>r. \<not> success_of r) (results s))) = int (length files)"
    using sum_length_filter_compl [of success_of "results s"] len by simp
  have ld: "map_of (fst (process_batch e w batch_file output_dir job_id)) ''languages_detected''
       = Some (PList (languages_detected s))"
    by (simp add: run)
  have ls: "set (languages_detected s)
       = (\<lambda>r. dict_get r ''language'' (PStr ''unknown'')) ` {r \<in> set (results s). success_of r}"
    using g r by simp
  have lf: "set (languages_detected s) \<subseteq> (\<lambda>p. PStr (detect_language p)) ` set files"
    using g h by simp
  from calls len fp ff total ld ls lf
  show "calls (snd (process_batch e w batch_file output_dir job_id)) = calls w @ files \<and>
     length (results s) = length files \<and>
     map_of (fst (process_batch e w batch_file output_dir job_id)) ''files_processed''
       = Some (PInt (int (length (filter success_of (results s))))) \<and>
     map_of (fst (process_batch e w batch_file output_dir job_id)) ''files_failed''
       = Some (PInt (int (length (filter (\<lambda>r. \<not> success_of r) (results s))))) \<and>
     int (length (filter success_of (results s)))
       + int (length (filter (\<lambda>r. \<not> success_of r) (results s))) = int (length files) \<and>
     map_of (fst (process_batch e w batch_file output_dir job_id)) ''languages_detected''
       = Some (PList (languages_detected s)) \<and>
     set (languages_detected s)
       = (\<lambda>r. dict_get r ''language'' (PStr ''unknown'')) ` {r \<in> set (results s). success_of r} \<and>
     set (languages_detected s) \<subseteq> (\<lambda>p. PStr (detect_language p)) ` set files"
    by blast
qed

text \<open>The run of the sample manifest, evaluated.\<close>

lemma sample_process_a_py:
  "fs w = sample_fs \<Longrightarrow>
   process_file mock_env w ''a.py'' ''out'' =
     ([(''success'', PBool True), (''language'', PStr ''python''),
       (''output_file'', PStr ''out/1676_a.py.vec.json'')],
      w\<lparr>calls := calls w @ [''a.py''], ticks := Suc (ticks w),
         fs := sample_fs(''out/1676_a.py.vec.json'' \<mapsto> File True ''{}'')\<rparr>)"
  by (simp add: process_file_def Let_def path_exists_def
      detect_language_def splitext_def rfind_def lower_def lower_char_def dict_get_def
      language_map_def
      read_file_content_def getsize_def open_text_def open_read_def read_chars_def
      utf8_replace_def vectorize_content_def success_of_def
      basename_def path_join_def str_nat.simps digit_char_def time_time_def write_text_def
      mock_env_def stub_hash_def stub_json_dumps_def sample_fs_def)

lemma sample_process_missing:
  "fs w ''missing.rs'' = None \<Longrightarrow>
   process_file mock_env w ''missing.rs'' ''out'' =
     ([(''success'', PBool False), (''error'', PStr ''File not found: missing.rs'')],
      w\<lparr>calls := calls w @ [''missing.rs'']\<rparr>)"
  by (simp add: process_file_def Let_def path_exists_def)

lemma sample_loop:
  "fs w = sample_fs \<Longrightarrow>
   process_files mock_env ''out'' [''a.py'', ''missing.rs''] (loop_init, w) =
     (\<lparr>results =
         [[(''success'', PBool True), (''language'', PStr ''python''),
           (''output_file'', PStr ''out/1676_a.py.vec.json'')],
          [(''success'', PBool False), (''error'', PStr ''File not found: missing.rs'')]],
       processed_count = 1, failed_count = 1, languages_detected = [PStr ''python'']\<rparr>,
      w\<lparr>calls := calls w @ [''a.py'', ''missing.rs''], ticks := Suc (ticks w),
         fs := sample_fs(''out/1676_a.py.vec.json'' \<mapsto> File True ''{}'')\<rparr>)"
proof -
  assume f: "fs w = sample_fs"
  have m: "fs (w\<lparr>calls := calls w @ [''a.py''], ticks := Suc (ticks w),
         fs := sample_fs(''out/1676_a.py.vec.json'' \<mapsto> File True ''{}'')\<rparr>) ''missing.rs'' = None"
    by (simp add: sample_fs_def)
  show ?thesis
    by (simp add: sample_process_a_py [OF f] sample_process_missing [OF m] Let_def loop_init_def
        dict_get_def)
qed



lemma sample_batch_json:
  \<open>fs w = sample_fs \<Longrightarrow> open_read w ''batch.json'' = Inr ''{"files": ["a.py", "missing.rs"]}''\<close>
  by (simp add: open_read_def sample_fs_def)

lemma sample_batch_parse:
  \<open>json_load mock_env ''{"files": ["a.py", "missing.rs"]}''
     = Inr [(''files'', [''a.py'', ''missing.rs''])]\<close>
  by (simp add: mock_env_def stub_json_load_def)

lemma sample_makedirs: "fs w = sample_fs \<Longrightarrow> makedirs w ''out'' = Inr w"
  by (simp add: makedirs_def sample_fs_def)

theorem process_batch_counts_witness:
  \<open>makedirs (snd (time_time sample_world)) ''out'' = Inr (snd (time_time sample_world)) \<and>
   open_read (snd (time_time sample_world)) ''batch.json''
     = Inr ''{"files": ["a.py", "missing.rs"]}'' \<and>
   json_load mock_env ''{"files": ["a.py", "missing.rs"]}''
     = Inr [(''files'', [''a.py'', ''missing.rs''])] \<and>
   dict_get [(''files'', [''a.py'', ''missing.rs''])] ''files'' [] = [''a.py'', ''missing.rs''] \<and>
   calls (snd (process_batch mock_env sample_world ''batch.json'' ''out'' ''job''))
     = [''a.py'', ''missing.rs''] \<and>
   map_of (fst (process_batch mock_env sample_world ''batch.json'' ''out'' ''job''))
     ''files_processed'' = Some (PInt 1) \<and>
   map_of (fst (process_batch mock_env sample_world ''batch.json'' ''out'' ''job''))
     ''files_failed'' = Some (PInt 1) \<and>
   map_of (fst (process_batch mock_env sample_world ''batch.json'' ''out'' ''job''))
     ''languages_detected'' = Some (PList [PStr ''python''])\<close>
proof -
  let ?w1 = "snd (time_time sample_world)"
  have f: "fs ?w1 = sample_fs"
    by (simp add: sample_world_def)
  have d: "dict_get [(''files'', [''a.py'', ''missing.rs''])] ''files'' [] = [''a.py'', ''missing.rs'']"
    by (simp add: dict_get_def)
  have c: "calls sample_world = []"
    by (simp add: sample_world_def)
  have ne: "[''a.py'', ''missing.rs''] \<noteq> []"
    by simp
  let ?s = "\<lparr>results =
         [[(''success'', PBool True), (''language'', PStr ''python''),
           (''output_file'', PStr ''out/1676_a.py.vec.json'')],
          [(''success'', PBool False), (''error'', PStr ''File not found: missing.rs'')]],
       processed_count = 1, failed_count = 1, languages_detected = [PStr ''python'']\<rparr>"
  let ?w2 = "?w1\<lparr>calls := calls ?w1 @ [''a.py'', ''missing.rs''], ticks := Suc (ticks ?w1),
         fs := sample_fs(''out/1676_a.py.vec.json'' \<mapsto> File True ''{}'')\<rparr>"
  have l: "process_files mock_env ''out'' [''a.py'', ''missing.rs''] (loop_init, ?w1) = (?s, ?w2)"
    by (rule sample_loop [OF f])
  show ?thesis
    using sample_makedirs [OF f] sample_batch_json [OF f] sample_batch_parse d c ne l
      process_batch_counts [of sample_world "''out''" ?w1 "''batch.json''"
        \<open>''{"files": ["a.py", "missing.rs"]}''\<close> mock_env
        "[(''files'', [''a.py'', ''missing.rs''])]" "[''a.py'', ''missing.rs'']" ?s ?w2 "''job''"]
    by (simp add: success_of_def)
qed


lemma sample_run:
  "fs w = sample_fs \<Longrightarrow>
   fst (process_batch mock_env w ''batch.json'' ''out'' job_id) =
     [(''success'', PBool True),
      (''message'', PStr ''Processed 1 files, 1 failed''),
      (''files_processed'', PInt 1),
      (''files_failed'', PInt 1),
      (''vectors_created'', PInt 1),
      (''languages_detected'', PList [PStr ''python'']),
      (''processing_time'', PFloat (clock w (Suc (Suc (ticks w))) - clock w (ticks w))),
      (''files_per_second'',
         if clock w (Suc (Suc (ticks w))) - clock w (ticks w) > 0
         then PFloat (1 / (clock w (Suc (Suc (ticks w))) - clock w (ticks w)))
         else PInt 0)]"
proof -
  assume f0: "fs w = sample_fs"
  let ?w1 = "snd (time_time w)"
  have f: "fs ?w1 = sample_fs"
    using f0 by simp
  have d: "dict_get [(''files'', [''a.py'', ''missing.rs''])] ''files'' [] = [''a.py'', ''missing.rs'']"
    by (simp add: dict_get_def)
  have ne: "[''a.py'', ''missing.rs''] \<noteq> []"
    by simp
  show ?thesis
    by (simp add: process_batch_loop [OF sample_makedirs [OF f] sample_batch_json [OF f]
          sample_batch_parse d ne sample_loop [OF f]] time_time_def str_nat.simps digit_char_def)
qed

text \<open>
  The claim as the specification states it speaks of every manifest list. It fails on
  the empty list, whose summary is the short one and has no key \<open>files_failed\<close>; and
  it fails on a list of two paths when the output directory cannot be created (here its
  path is taken by the regular file \<open>a.py\<close>): the error is caught, \<open>process_file\<close>
  is not invoked at all, and the summary is again the short one.
\<close>

theorem process_batch_counts_counterexample:
  \<open>fs sample_world ''empty.json'' = Some (File True ''{"files": []}'') \<and>
   json_load mock_env ''{"files": []}'' = Inr [(''files'', [])] \<and>
   map_of (fst (process_batch mock_env sample_world ''empty.json'' ''out'' ''job''))
     ''files_failed'' = None \<and>
   fs sample_world ''batch.json'' = Some (File True ''{"files": ["a.py", "missing.rs"]}'') \<and>
   json_load mock_env ''{"files": ["a.py", "missing.rs"]}''
     = Inr [(''files'', [''a.py'', ''missing.rs''])] \<and>
   fs sample_world ''a.py'' = Some (File True ''print(1)'') \<and>
   calls (snd (process_batch mock_env sample_world ''batch.json'' ''a.py'' ''job'')) = [] \<and>
   map_of (fst (process_batch mock_env sample_world ''batch.json'' ''a.py'' ''job''))
     ''files_failed'' = None\<close>
  by (simp add: process_batch_def batch_error_def time_time_def makedirs_def open_read_def Let_def
      dict_get_def sample_world_def sample_fs_def mock_env_def stub_json_load_def)


section \<open>Batch Orchestrator: throughput and artifact count\<close>

text \<open>The only summary with \<open>success = True\<close> is the long one, built after the loop.\<close>

lemma process_batch_success_shape:
  assumes "success_of (fst (process_batch e w batch_file output_dir job_id))"
  shows "\<exists>n m langs t msg. 0 \<le> n \<and>
     fst (process_batch e w batch_file output_dir job_id) =
       [(''success'', PBool True),
        (''message'', PStr msg),
        (''files_processed'', PInt n),
        (''files_failed'', PInt m),
        (''vectors_created'', PInt n),
        (''languages_detected'', PList langs),
        (''processing_time'', PFloat t),
        (''files_per_second'', if t > 0 then PFloat (real_of_int n / t) else PInt 0)]"
proof -
  from assms obtain w1 bytes batch_data where
    m: "makedirs (snd (time_time w)) output_dir = Inr w1" and
    o: "open_read w1 batch_file = Inr bytes" and
    j: "json_load e bytes = Inr batch_data" and
    ne: "dict_get batch_data ''files'' [] \<noteq> []"
    by (auto simp: process_batch_def batch_error_def Let_def split_def
        split: sum.splits if_splits)
  obtain s w2 where
    l: "process_files e output_dir (dict_get batch_data ''files'' []) (loop_init, w1) = (s, w2)"
    by (cases "process_files e output_dir (dict_get batch_data ''files'' []) (loop_init, w1)")
  have "0 \<le> processed_count s"
    using process_files_inv [OF l] by auto
  then show ?thesis
    using process_batch_loop [OF m o j refl ne l, of job_id] by auto
qed

text \<open>
  Claim C6, as amended. In every successful batch summary \<open>files_per_second\<close> is never
  negative; it is \<open>0\<close> whenever the elapsed time (the summary's \<open>processing_time\<close>, a
  difference of two readings of the wall clock) is zero or negative, and it is
  \<open>files_processed\<close> divided by the elapsed time whenever the elapsed time is
  positive. The division is done only with a positive divisor.
\<close>

theorem files_per_second_guard:
  "success_of (fst (process_batch e w batch_file output_dir job_id)) \<Longrightarrow>
     \<exists>n t v x.
       map_of (fst (process_batch e w batch_file output_dir job_id)) ''files_processed''
         = Some (PInt n) \<and>
       map_of (fst (process_batch e w batch_file output_dir job_id)) ''processing_time''
         = Some (PFloat t) \<and>
       map_of (fst (process_batch e w batch_file output_dir job_id)) ''files_per_second''
         = Some v \<and>
       py_number v = Some x \<and> 0 \<le> x \<and>
       (t \<le> 0 \<longrightarrow> v = PInt 0 \<and> x = 0) \<and>
       (0 < t \<longrightarrow> v = PFloat (real_of_int n / t) \<and> x = real_of_int n / t)"
proof -
  assume "success_of (fst (process_batch e w batch_file output_dir job_id))"
  from process_batch_success_shape [OF this] obtain n m langs t msg where
    n: "0 \<le> n" and
    s: "fst (process_batch e w batch_file output_dir job_id) =
       [(''success'', PBool True),
        (''message'', PStr msg),
        (''files_processed'', PInt n),
        (''files_failed'', PInt m),
        (''vectors_created'', PInt n),
        (''languages_detected'', PList langs),
        (''processing_time'', PFloat t),
        (''files_per_second'', if t > 0 then PFloat (real_of_int n / t) else PInt 0)]"
    by blast
  show ?thesis
  proof (cases "0 < t")
    case True
    then have "0 \<le> real_of_int n / t"
      using n by simp
    then show ?thesis
      using True by (simp add: s)
  next
    case False
    then show ?thesis
      by (simp add: s)
  qed
qed

lemma sample_success:
  "fs w = sample_fs \<Longrightarrow> success_of (fst (process_batch mock_env w ''batch.json'' ''out'' job_id))"
  by (simp add: sample_run)

theorem files_per_second_guard_witness:
  "success_of (fst (process_batch mock_env sample_world ''batch.json'' ''out'' ''job'')) \<and>
   map_of (fst (process_batch mock_env sample_world ''batch.json'' ''out'' ''job''))
     ''files_processed'' = Some (PInt 1) \<and>
   map_of (fst (process_batch mock_env sample_world ''batch.json'' ''out'' ''job''))
     ''processing_time'' = Some (PFloat 2) \<and>
   map_of (fst (process_batch mock_env sample_world ''batch.json'' ''out'' ''job''))
     ''files_per_second'' = Some (PFloat (1 / 2)) \<and>
   success_of (fst (process_batch mock_env stepped_back_world ''batch.json'' ''out'' ''job'')) \<and>
   map_of (fst (process_batch mock_env stepped_back_world ''batch.json'' ''out'' ''job''))
     ''processing_time'' = Some (PFloat (- 5)) \<and>
   map_of (fst (process_batch mock_env stepped_back_world ''batch.json'' ''out'' ''job''))
     ''files_per_second'' = Some (PInt 0)"
proof -
  have f: "fs sample_world = sample_fs" "fs stepped_back_world = sample_fs"
    by (simp_all add: stepped_back_world_def sample_world_def)
  have h: "success_of (fst (process_batch mock_env sample_world ''batch.json'' ''out'' ''job''))"
    "success_of (fst (process_batch mock_env stepped_back_world ''batch.json'' ''out'' ''job''))"
    by (rule sample_success [OF f(1)], rule sample_success [OF f(2)])
  have t: "ticks sample_world = 0" "clock sample_world = (\<lambda>n. 100 + real n)"
    "ticks stepped_back_world = 0" "clock stepped_back_world = (\<lambda>n. if n = 0 then 10 else 5)"
    by (simp_all add: stepped_back_world_def sample_world_def)
  show ?thesis
    using h files_per_second_guard [OF h(1)] files_per_second_guard [OF h(2)]
    by (simp add: sample_run [OF f(1)] sample_run [OF f(2)] t)
qed

text \<open>
  The claim as the specification states it asks for the quotient whenever the elapsed
  time is not zero. When the wall clock is set back during the run the elapsed time is
  negative (here \<open>5 - 10\<close>), and the summary reports \<open>0\<close>, not \<open>1 / (-5)\<close>.
\<close>

theorem files_per_second_counterexample:
  "success_of (fst (process_batch mock_env stepped_back_world ''batch.json'' ''out'' ''job'')) \<and>
   map_of (fst (process_batch mock_env stepped_back_world ''batch.json'' ''out'' ''job''))
     ''files_processed'' = Some (PInt 1) \<and>
   map_of (fst (process_batch mock_env stepped_back_world ''batch.json'' ''out'' ''job''))
     ''processing_time'' = Some (PFloat (- 5)) \<and>
   (- 5 :: real) \<noteq> 0 \<and>
   map_of (fst (process_batch mock_env stepped_back_world ''batch.json'' ''out'' ''job''))
     ''files_per_second'' = Some (PInt 0) \<and>
   py_number (PInt 0) \<noteq> Some (real_of_int 1 / (- 5))"
proof -
  have f: "fs stepped_back_world = sample_fs"
    by (simp add: stepped_back_world_def sample_world_def)
  have t: "ticks stepped_back_world = 0" "clock stepped_back_world = (\<lambda>n. if n = 0 then 10 else 5)"
    by (simp_all add: stepped_back_world_def sample_world_def)
  show ?thesis
    by (simp add: sample_run [OF f] t)
qed

text \<open>
  Claim C9. In every successful batch summary, \<open>vectors_created\<close> equals
  \<open>files_processed\<close>: one artifact is counted per successfully processed file.
\<close>

theorem vectors_created_eq_files_processed:
  "success_of (fst (process_batch e w batch_file output_dir job_id)) \<Longrightarrow>
     \<exists>n. map_of (fst (process_batch e w batch_file output_dir job_id)) ''vectors_created''
            = Some (PInt n) \<and>
         map_of (fst (process_batch e w batch_file output_dir job_id)) ''files_processed''
            = Some (PInt n)"
proof -
  assume "success_of (fst (process_batch e w batch_file output_dir job_id))"
  from process_batch_success_shape [OF this] obtain n m langs t msg where
    "fst (process_batch e w batch_file output_dir job_id) =
       [(''success'', PBool True),
        (''message'', PStr msg),
        (''files_processed'', PInt n),
        (''files_failed'', PInt m),
        (''vectors_created'', PInt n),
        (''languages_detected'', PList langs),
        (''processing_time'', PFloat t),
        (''files_per_second'', if t > 0 then PFloat (real_of_int n / t) else PInt 0)]"
    by blast
  then show ?thesis by simp
qed

theorem vectors_created_eq_files_processed_witness:
  "success_of (fst (process_batch mock_env sample_world ''batch.json'' ''out'' ''nightly'')) \<and>
   map_of (fst (process_batch mock_env sample_world ''batch.json'' ''out'' ''nightly''))
     ''vectors_created'' = Some (PInt 1) \<and>
   map_of (fst (process_batch mock_env sample_world ''batch.json'' ''out'' ''nightly''))
     ''files_processed'' = Some (PInt 1)"
proof -
  have f: "fs sample_world = sample_fs"
    by (simp add: sample_world_def)
  have h: "success_of (fst (process_batch mock_env sample_world ''batch.json'' ''out'' ''nightly''))"
    by (rule sample_success [OF f])
  show ?thesis
    using h vectors_created_eq_files_processed [OF h] by (simp add: sample_run [OF f])
qed



section \<open>Entry Point: exit codes\<close>

lemma batch_error_world:
  "stdout (snd (batch_error ex start_time w)) = stdout w \<and>
   ticks w < ticks (snd (batch_error ex start_time w))"
  by (simp add: batch_error_def time_time_def)

lemma process_batch_world:
  "stdout (snd (process_batch e w batch_file output_dir job_id)) = stdout w \<and>
   ticks w < ticks (snd (process_batch e w batch_file output_dir job_id))"
proof (cases "makedirs (snd (time_time w)) output_dir")
  case (Inl ex)
  then show ?thesis
    using batch_error_world [of ex "fst (time_time w)" "snd (time_time w)"]
    by (simp add: process_batch_def split_def time_time_def)
next
  case m: (Inr w1)
  have w1: "stdout w1 = stdout w" "ticks w1 = Suc (ticks w)"
    using makedirs_world [OF m] by (simp_all add: time_time_def)
  show ?thesis
  proof (cases "open_read w1 batch_file")
    case (Inl ex)
    then show ?thesis
      using m w1 batch_error_world [of ex "fst (time_time w)" w1]
      by (simp add: process_batch_def split_def)
  next
    case o: (Inr bytes)
    show ?thesis
    proof (cases "json_load e bytes")
      case (Inl msg)
      then show ?thesis
        using m o w1 batch_error_world [of "Raised msg" "fst (time_time w)" w1]
        by (simp add: process_batch_def split_def)
    next
      case j: (Inr batch_data)
      show ?thesis
      proof (cases "dict_get batch_data ''files'' [] = []")
        case True
        then show ?thesis
          using m o j w1 by (simp add: process_batch_def split_def time_time_def)
      next
        case ne: False
        obtain s w2 where
          l: "process_files e output_dir (dict_get batch_data ''files'' []) (loop_init, w1) = (s, w2)"
          by (cases "process_files e output_dir (dict_get batch_data ''files'' []) (loop_init, w1)")
        have "stdout w2 = stdout w1" "ticks w1 \<le> ticks w2"
          using process_files_inv [OF l] by simp_all
        then show ?thesis
          using w1 by (simp add: process_batch_loop [OF m o j refl ne l] time_time_def)
      qed
    qed
  qed
qed

text \<open>
  Claim C7. When the manifest file does not exist the entry point returns exit code
  \<open>1\<close> and leaves the world as it was: nothing is printed and the Batch Orchestrator
  has not run (a run of \<open>process_batch\<close> always reads the clock, which advances
  \<open>ticks\<close>). Otherwise it prints exactly one line, the JSON text of the summary that
  \<open>process_batch\<close> returns, and the exit code is \<open>0\<close> if the summary's success flag is
  true and \<open>1\<close> if not.
\<close>

theorem main_exit_code:
  "(\<not> path_exists w (arg_batch_file a) \<longrightarrow> main e w a = (1, w)) \<and>
   (path_exists w (arg_batch_file a) \<longrightarrow>
      stdout (snd (main e w a)) =
        stdout w @ [json_dumps e (PDict (fst
          (process_batch e w (arg_batch_file a) (arg_output_dir a) (arg_job_id a))))] \<and>
      fst (main e w a) =
        (if success_of (fst
            (process_batch e w (arg_batch_file a) (arg_output_dir a) (arg_job_id a)))
         then 0 else 1)) \<and>
   ticks w < ticks (snd (process_batch e w (arg_batch_file a) (arg_output_dir a) (arg_job_id a)))"
  using process_batch_world [of e w "arg_batch_file a" "arg_output_dir a" "arg_job_id a"]
  by (simp add: main_def Let_def split_def)

theorem main_exit_code_witness:
  "\<not> path_exists sample_world ''nope.json'' \<and>
   main mock_env sample_world
     \<lparr>arg_batch_file = ''nope.json'', arg_output_dir = ''out'', arg_job_id = ''unknown''\<rparr>
     = (1, sample_world) \<and>
   path_exists sample_world ''batch.json'' \<and>
   fst (main mock_env sample_world
     \<lparr>arg_batch_file = ''batch.json'', arg_output_dir = ''out'', arg_job_id = ''unknown''\<rparr>) = 0 \<and>
   stdout (snd (main mock_env sample_world
     \<lparr>arg_batch_file = ''batch.json'', arg_output_dir = ''out'', arg_job_id = ''unknown''\<rparr>))
     = [''{}''] \<and>
   path_exists sample_world ''empty.json'' \<and>
   fst (main mock_env sample_world
     \<lparr>arg_batch_file = ''empty.json'', arg_output_dir = ''out'', arg_job_id = ''unknown''\<rparr>) = 1"
proof -
  have p: "\<not> path_exists sample_world ''nope.json''" "path_exists sample_world ''batch.json''"
    "path_exists sample_world ''empty.json''"
    by (simp_all add: path_exists_def sample_world_def sample_fs_def)
  have f: "fs sample_world = sample_fs"
    by (simp add: sample_world_def)
  have ok: "success_of (fst (process_batch mock_env sample_world ''batch.json'' ''out'' ''unknown''))"
    by (rule sample_success [OF f])
  have ko: "\<not> success_of (fst (process_batch mock_env sample_world ''empty.json'' ''out'' ''unknown''))"
    by (simp add: sample_empty_run)
  have d: "json_dumps mock_env x = ''{}''" for x
    by (simp add: mock_env_def stub_json_dumps_def)
  have s: "stdout sample_world = []"
    by (simp add: sample_world_def)
  show ?thesis
    using p ok ko d s
      main_exit_code [of sample_world
        "\<lparr>arg_batch_file = ''nope.json'', arg_output_dir = ''out'', arg_job_id = ''unknown''\<rparr>" mock_env]
      main_exit_code [of sample_world
        "\<lparr>arg_batch_file = ''batch.json'', arg_output_dir = ''out'', arg_job_id = ''unknown''\<rparr>" mock_env]
      main_exit_code [of sample_world
        "\<lparr>arg_batch_file = ''empty.json'', arg_output_dir = ''out'', arg_job_id = ''unknown''\<rparr>" mock_env]
    by simp
qed

end
